theory Spec2Isabelle
  imports Complex_Main
begin

section \<open>Data model\<close>

text \<open>
  The components read deliveries through the fields \<open>striker.id\<close>, \<open>bowler.id\<close>, \<open>runs\<close>,
  the four extra flags, \<open>isWicket\<close>, \<open>wicketType\<close>, \<open>wicketFielder\<close> and \<open>innings\<close>.
  JavaScript numbers are restricted to integers here (\<open>runs\<close> is an \<open>int\<close>, counts produced by
  \<open>.length\<close> are \<open>nat\<close>); optional fields are \<open>option\<close> values (\<open>None\<close> for \<open>undefined\<close>).
\<close>

record player =
  player_id :: string
  name :: string

text \<open>
  Modelled from the spec: the declaration of the dismissal kinds (\<open>types/cricket\<close>) is not
  among the sources; the closed set is the one of the data model, and \<open>RunOut\<close> is the kind
  the components compare with the literal \<open>'run_out'\<close>.
\<close>

datatype wicket_kind = Bowled | Caught | Lbw | RunOut | Stumped | HitWicket | Retired

record ball =
  striker :: player
  bowler :: player
  runs :: int
  isWide :: bool
  isNoBall :: bool
  isBye :: bool
  isLegBye :: bool
  isWicket :: bool
  wicketType :: "wicket_kind option"
  wicketFielder :: "player option"
  innings :: "nat option"

record team =
  team_name :: string
  players :: "player list"

record cricket_match =
  team1 :: team
  team2 :: team
  balls :: "ball list"
  currentStriker :: "player option"
  currentNonStriker :: "player option"
  currentBowler :: "player option"
  isSecondInnings :: bool
  manOfTheMatch :: "player option"

section \<open>CompactPlayerStats\<close>

text \<open>
  The rates are kept as exact quotients; the rendering \<open>toFixed\<close> of the source is left out.
\<close>

record batsman_stats =
  bat_runs :: int
  bat_ballsFaced :: nat
  bat_fours :: nat
  bat_sixes :: nat
  bat_strikeRate :: real

record bowler_stats =
  bowl_runs :: int
  bowl_ballsBowled :: nat
  bowl_wickets :: nat
  bowl_maidens :: nat
  bowl_economy :: real
  bowl_overs :: nat
  bowl_remainingBalls :: nat

definition CompactPlayerStats_calculateBatsmanStats :: "cricket_match \<Rightarrow> player \<Rightarrow> batsman_stats" where
  "CompactPlayerStats_calculateBatsmanStats m p =
    (let playerBalls = filter (\<lambda>b. player_id (striker b) = player_id p) (balls m);
         runs' = foldl (\<lambda>sum ball.
                   if \<not> isWide ball \<and> \<not> isNoBall ball \<and> \<not> isBye ball \<and> \<not> isLegBye ball
                   then sum + runs ball else sum) 0 playerBalls;
         ballsFaced = length (filter (\<lambda>b. \<not> isWide b \<and> \<not> isNoBall b) playerBalls);
         fours = length (filter (\<lambda>b. runs b = 4) playerBalls);
         sixes = length (filter (\<lambda>b. runs b = 6) playerBalls);
         strikeRate = (if ballsFaced > 0 then (real_of_int runs' / real ballsFaced) * 100 else 0)
     in \<lparr>bat_runs = runs', bat_ballsFaced = ballsFaced, bat_fours = fours, bat_sixes = sixes,
         bat_strikeRate = strikeRate\<rparr>)"

definition CompactPlayerStats_calculateBowlerStats :: "cricket_match \<Rightarrow> player \<Rightarrow> bowler_stats" where
  "CompactPlayerStats_calculateBowlerStats m p =
    (let bowlerBalls = filter (\<lambda>b. player_id (bowler b) = player_id p) (balls m);
         runs' = foldl (\<lambda>sum ball. sum + runs ball) 0 bowlerBalls;
         ballsBowled = length (filter (\<lambda>b. \<not> isWide b \<and> \<not> isNoBall b) bowlerBalls);
         wickets = length (filter (\<lambda>b. isWicket b \<and> wicketType b \<noteq> Some RunOut) bowlerBalls);
         maidens = 0;
         economy = (if ballsBowled > 0 then (real_of_int runs' / real ballsBowled) * 6 else 0);
         overs = ballsBowled div 6;
         remainingBalls = ballsBowled mod 6
     in \<lparr>bowl_runs = runs', bowl_ballsBowled = ballsBowled, bowl_wickets = wickets,
         bowl_maidens = maidens, bowl_economy = economy, bowl_overs = overs,
         bowl_remainingBalls = remainingBalls\<rparr>)"

section \<open>DetailedScorecardModal\<close>

record batting_stats =
  dsm_runs :: int
  dsm_balls :: nat
  dsm_fours :: nat
  dsm_sixes :: nat
  dsm_gotOut :: bool

text \<open>One round of the \<open>forEach\<close> loop of \<open>calculateBattingStats\<close> over the mutable locals.\<close>

definition calculateBattingStats_step :: "player \<Rightarrow> batting_stats \<Rightarrow> ball \<Rightarrow> batting_stats" where
  "calculateBattingStats_step p s ball =
    (let s1 = (if \<not> isWide ball \<and> \<not> isNoBall ball \<and> \<not> isBye ball \<and> \<not> isLegBye ball
               then s\<lparr>dsm_runs := dsm_runs s + runs ball\<rparr> else s);
         s2 = (if \<not> isWide ball \<and> \<not> isNoBall ball then s1\<lparr>dsm_balls := dsm_balls s1 + 1\<rparr> else s1);
         s3 = (if runs ball = 4 then s2\<lparr>dsm_fours := dsm_fours s2 + 1\<rparr> else s2);
         s4 = (if runs ball = 6 then s3\<lparr>dsm_sixes := dsm_sixes s3 + 1\<rparr> else s3)
     in (if isWicket ball \<and> player_id (striker ball) = player_id p
         then s4\<lparr>dsm_gotOut := True\<rparr> else s4))"

definition DetailedScorecardModal_calculateBattingStats :: "cricket_match \<Rightarrow> player \<Rightarrow> batting_stats" where
  "DetailedScorecardModal_calculateBattingStats m p =
    (let battingBalls = filter (\<lambda>b. player_id (striker b) = player_id p) (balls m)
     in foldl (calculateBattingStats_step p)
          \<lparr>dsm_runs = 0, dsm_balls = 0, dsm_fours = 0, dsm_sixes = 0, dsm_gotOut = False\<rparr>
          battingBalls)"

text \<open>The strike rate of the modal, computed from the loop's totals (before \<open>toFixed\<close>).\<close>

definition DetailedScorecardModal_strikeRate :: "batting_stats \<Rightarrow> real" where
  "DetailedScorecardModal_strikeRate s =
    (if dsm_balls s > 0 then (real_of_int (dsm_runs s) / real (dsm_balls s)) * 100 else 0)"

text \<open>
  \<open>calculateBowlingStats\<close>: the locals of its \<open>forEach\<close> loop, one round of the loop, and
  the figures derived after it. \<open>overs\<close> is the overs.balls notation read as a decimal number
  (three balls of an over are \<open>0.3\<close>); it is kept exact here, the source prints it with
  \<open>toFixed\<close>.
\<close>

record bowling_locals =
  bl_wickets :: nat
  bl_runs :: int
  bl_balls :: nat
  bl_wides :: nat
  bl_noBalls :: nat

record bowling_stats =
  dsw_overs :: real
  dsw_wickets :: nat
  dsw_runs :: int
  dsw_economy :: real
  dsw_wides :: nat
  dsw_noBalls :: nat

definition calculateBowlingStats_step :: "bowling_locals \<Rightarrow> ball \<Rightarrow> bowling_locals" where
  "calculateBowlingStats_step s ball =
    (let s1 = (if \<not> isWide ball \<and> \<not> isNoBall ball then s\<lparr>bl_balls := bl_balls s + 1\<rparr> else s);
         s2 = (if isWicket ball \<and> wicketType ball \<noteq> Some RunOut
               then s1\<lparr>bl_wickets := bl_wickets s1 + 1\<rparr> else s1);
         s3 = s2\<lparr>bl_runs := bl_runs s2 + runs ball\<rparr>;
         s4 = (if isWide ball then s3\<lparr>bl_wides := bl_wides s3 + 1\<rparr> else s3)
     in (if isNoBall ball then s4\<lparr>bl_noBalls := bl_noBalls s4 + 1\<rparr> else s4))"

definition DetailedScorecardModal_calculateBowlingStats :: "cricket_match \<Rightarrow> player \<Rightarrow> bowling_stats" where
  "DetailedScorecardModal_calculateBowlingStats m p =
    (let bowlingBalls = filter (\<lambda>b. player_id (bowler b) = player_id p) (balls m);
         s = foldl calculateBowlingStats_step
               \<lparr>bl_wickets = 0, bl_runs = 0, bl_balls = 0, bl_wides = 0, bl_noBalls = 0\<rparr>
               bowlingBalls;
         overs = real (bl_balls s div 6) + real (bl_balls s mod 6) / 10;
         economy = (if overs > 0 then real_of_int (bl_runs s) / overs else 0)
     in \<lparr>dsw_overs = overs, dsw_wickets = bl_wickets s, dsw_runs = bl_runs s,
         dsw_economy = economy, dsw_wides = bl_wides s, dsw_noBalls = bl_noBalls s\<rparr>)"

section \<open>LiveStatsBar\<close>

datatype js_error = ReferenceError

text \<open>
  \<open>Array.prototype.filter\<close> with a callback that may throw: the elements are visited from
  left to right and the first exception leaves the whole call.
\<close>

fun filter_throwing :: "('a \<Rightarrow> js_error + bool) \<Rightarrow> 'a list \<Rightarrow> js_error + 'a list" where
  "filter_throwing f [] = Inr []"
| "filter_throwing f (x # xs) =
    (case f x of
       Inl e \<Rightarrow> Inl e
     | Inr keep \<Rightarrow>
         (case filter_throwing f xs of
            Inl e \<Rightarrow> Inl e
          | Inr ys \<Rightarrow> Inr (if keep then x # ys else ys)))"

text \<open>
  The callback \<open>b => !b.isWide && !ball.isNoBall\<close> of the \<open>ballsFaced\<close> filter. The
  identifier \<open>ball\<close> is the parameter of the earlier \<open>reduce\<close> callback only; it is bound
  neither in this arrow function nor in the component or the module. \<open>&&\<close> evaluates its
  right operand only when the left one is true, and evaluating the unbound identifier
  throws.
\<close>

definition ballsFaced_callback :: "ball \<Rightarrow> js_error + bool" where
  "ballsFaced_callback b = (if \<not> isWide b then Inl ReferenceError else Inr False)"

record live_batsman_stats =
  lsb_runs :: int
  lsb_ballsFaced :: nat
  lsb_fours :: nat
  lsb_sixes :: nat
  lsb_strikeRate :: real
  lsb_dotBalls :: nat

definition LiveStatsBar_calculateBatsmanStats :: "player \<Rightarrow> ball list \<Rightarrow> js_error + live_batsman_stats" where
  "LiveStatsBar_calculateBatsmanStats p bs =
    (let playerBalls = filter (\<lambda>b. player_id (striker b) = player_id p) bs;
         runs' = foldl (\<lambda>sum ball.
                   if \<not> isWide ball \<and> \<not> isNoBall ball \<and> \<not> isBye ball \<and> \<not> isLegBye ball
                   then sum + runs ball else sum) 0 playerBalls
     in case filter_throwing ballsFaced_callback playerBalls of
          Inl e \<Rightarrow> Inl e
        | Inr faced \<Rightarrow>
            (let ballsFaced = length faced;
                 fours = length (filter (\<lambda>b. runs b = 4) playerBalls);
                 sixes = length (filter (\<lambda>b. runs b = 6) playerBalls);
                 strikeRate = (if ballsFaced > 0 then (real_of_int runs' / real ballsFaced) * 100 else 0);
                 dotBalls = length (filter (\<lambda>b. \<not> isWide b \<and> \<not> isNoBall b \<and> runs b = 0) playerBalls)
             in Inr \<lparr>lsb_runs = runs', lsb_ballsFaced = ballsFaced, lsb_fours = fours,
                     lsb_sixes = sixes, lsb_strikeRate = strikeRate, lsb_dotBalls = dotBalls\<rparr>))"

record live_bowler_stats =
  lsw_runs :: int
  lsw_ballsBowled :: nat
  lsw_wickets :: nat
  lsw_dotBalls :: nat
  lsw_economy :: real
  lsw_overs :: nat
  lsw_remainingBalls :: nat

definition LiveStatsBar_calculateBowlerStats :: "player \<Rightarrow> ball list \<Rightarrow> live_bowler_stats" where
  "LiveStatsBar_calculateBowlerStats p bs =
    (let bowlerBalls = filter (\<lambda>b. player_id (bowler b) = player_id p) bs;
         runs' = foldl (\<lambda>sum ball. sum + runs ball) 0 bowlerBalls;
         ballsBowled = length (filter (\<lambda>b. \<not> isWide b \<and> \<not> isNoBall b) bowlerBalls);
         wickets = length (filter (\<lambda>b. isWicket b \<and> wicketType b \<noteq> Some RunOut) bowlerBalls);
         dotBalls = length (filter (\<lambda>b. \<not> isWide b \<and> \<not> isNoBall b \<and> runs b = 0) bowlerBalls);
         economy = (if ballsBowled > 0 then (real_of_int runs' / real ballsBowled) * 6 else 0);
         overs = ballsBowled div 6;
         remainingBalls = ballsBowled mod 6
     in \<lparr>lsw_runs = runs', lsw_ballsBowled = ballsBowled, lsw_wickets = wickets,
         lsw_dotBalls = dotBalls, lsw_economy = economy, lsw_overs = overs,
         lsw_remainingBalls = remainingBalls\<rparr>)"

section \<open>LiveScoreboard\<close>

definition LiveScoreboard_calculateBatsmanStats :: "cricket_match \<Rightarrow> player \<Rightarrow> batsman_stats" where
  "LiveScoreboard_calculateBatsmanStats m p =
    (let playerBalls = filter (\<lambda>b. player_id (striker b) = player_id p) (balls m);
         runs' = foldl (\<lambda>sum ball. sum + runs ball) 0 playerBalls;
         ballsFaced = length (filter (\<lambda>b. \<not> isWide b \<and> \<not> isNoBall b) playerBalls);
         fours = length (filter (\<lambda>b. runs b = 4) playerBalls);
         sixes = length (filter (\<lambda>b. runs b = 6) playerBalls);
         strikeRate = (if ballsFaced > 0 then (real_of_int runs' / real ballsFaced) * 100 else 0)
     in \<lparr>bat_runs = runs', bat_ballsFaced = ballsFaced, bat_fours = fours, bat_sixes = sixes,
         bat_strikeRate = strikeRate\<rparr>)"

section \<open>ScoreDisplay\<close>

text \<open>
  The remainder operator \<open>%\<close> of JavaScript takes the sign of the dividend; \<open>Math.floor\<close> of a
  quotient of integers is the floor division \<open>div\<close> of \<open>int\<close>.
\<close>

definition js_rem :: "int \<Rightarrow> int \<Rightarrow> int" where
  "js_rem a b = sgn a * (\<bar>a\<bar> mod \<bar>b\<bar>)"

text \<open>
  \<open>formatOvers\<close> returns the template string \<open>`${overs}.${remainingBalls}`\<close>; the model
  returns the two numbers the template prints, in that order.
\<close>

definition formatOvers :: "int \<Rightarrow> int \<times> int" where
  "formatOvers balls' =
    (let overs = balls' div 6;
         remainingBalls = js_rem balls' 6
     in (overs, remainingBalls))"

text \<open>\<open>x || d\<close> on a number that may be \<open>undefined\<close>: \<open>undefined\<close> and \<open>0\<close> are both falsy.\<close>

fun js_or :: "int option \<Rightarrow> int \<Rightarrow> int" where
  "js_or None d = d"
| "js_or (Some v) d = (if v = 0 then d else v)"

text \<open>\<open>Array.prototype.pop\<close> read for its result: the last element, or \<open>undefined\<close>.\<close>

definition pop_result :: "'a list \<Rightarrow> 'a option" where
  "pop_result xs = (if xs = [] then None else Some (last xs))"

record partnership =
  pship_runs :: int
  pship_balls :: nat

definition currentInningsBalls :: "cricket_match \<Rightarrow> ball list" where
  "currentInningsBalls m =
    filter (\<lambda>ball.
       (\<not> isSecondInnings m \<and> (innings ball = Some 1 \<or> innings ball = None \<or> innings ball = Some 0))
       \<or> (isSecondInnings m \<and> innings ball = Some 2)) (balls m)"

text \<open>The chain \<open>.map((ball, index) => ball.isWicket ? index : -1).filter(index => index !== -1)\<close>.\<close>

definition wicketIndices :: "ball list \<Rightarrow> int list" where
  "wicketIndices xs =
    filter (\<lambda>index. index \<noteq> - 1)
      (map (\<lambda>(index, ball). if isWicket ball then int index else - 1) (enumerate 0 xs))"

definition lastWicketIndex :: "ball list \<Rightarrow> int" where
  "lastWicketIndex xs = js_or (pop_result (wicketIndices xs)) (- 1)"

definition calculatePartnership :: "cricket_match \<Rightarrow> partnership" where
  "calculatePartnership m =
    (if currentStriker m = None \<or> currentNonStriker m = None
     then \<lparr>pship_runs = 0, pship_balls = 0\<rparr>
     else
       (let xs = currentInningsBalls m;
            partnershipBalls = drop (nat (lastWicketIndex xs + 1)) xs;
            runs' = foldl (\<lambda>sum ball. sum + runs ball) 0 partnershipBalls;
            balls' = length (filter (\<lambda>ball. \<not> isWide ball \<and> \<not> isNoBall ball) partnershipBalls)
        in \<lparr>pship_runs = runs', pship_balls = balls'\<rparr>))"

section \<open>GroupDashboard\<close>

text \<open>
  \<open>calculatePlayerStats\<close> maps one computation over the players; \<open>playerStatsOf\<close> is that
  computation for one player. The three reducers carry their accumulator objects as tuples,
  in the order of the object literals, and their callbacks are the \<open>_step\<close> functions. The local constants \<open>average\<close>, \<open>strikeRate\<close> and
  \<open>economy\<close> are exact quotients here; the source stores them rounded to two decimals, and
  prints \<open>bestBowling\<close> as \<open>wickets/runsConceded\<close>.
\<close>

record player_stats =
  ps_player :: player
  ps_matches :: nat
  ps_runs :: int
  ps_balls :: nat
  ps_fours :: nat
  ps_sixes :: nat
  ps_highestScore :: int
  ps_wickets :: nat
  ps_overs :: real
  ps_runsConceded :: int
  ps_catches :: nat
  ps_stumpings :: nat
  ps_runOuts :: nat
  ps_average :: real
  ps_strikeRate :: real
  ps_economy :: real
  ps_bestBowling :: "nat \<times> int"
  ps_fifties :: int
  ps_hundreds :: int
  ps_motmAwards :: nat

definition playerMatches :: "cricket_match list \<Rightarrow> player \<Rightarrow> cricket_match list" where
  "playerMatches ms p =
    filter (\<lambda>m. list_ex (\<lambda>q. player_id q = player_id p) (players (team1 m))
               \<or> list_ex (\<lambda>q. player_id q = player_id p) (players (team2 m))) ms"

definition battingStats_step ::
  "player \<Rightarrow> int \<times> nat \<times> nat \<times> nat \<times> int \<Rightarrow> cricket_match \<Rightarrow> int \<times> nat \<times> nat \<times> nat \<times> int" where
  "battingStats_step p acc m =
    (case acc of (acc_runs, acc_balls, acc_fours, acc_sixes, acc_highestScore) \<Rightarrow>
      (let bs = filter (\<lambda>b. player_id (striker b) = player_id p) (balls m);
           runs' = foldl (\<lambda>sum b. sum + runs b) 0 bs;
           fours = length (filter (\<lambda>b. runs b = 4) bs);
           sixes = length (filter (\<lambda>b. runs b = 6) bs);
           highestScore = foldr max (map runs bs) 0
       in (acc_runs + runs', acc_balls + length bs, acc_fours + fours, acc_sixes + sixes,
           max acc_highestScore highestScore)))"

definition battingStats :: "cricket_match list \<Rightarrow> player \<Rightarrow> int \<times> nat \<times> nat \<times> nat \<times> int" where
  "battingStats pms p = foldl (battingStats_step p) (0, 0, 0, 0, 0) pms"

definition bowlingStats_step ::
  "player \<Rightarrow> nat \<times> real \<times> int \<Rightarrow> cricket_match \<Rightarrow> nat \<times> real \<times> int" where
  "bowlingStats_step p acc m =
    (case acc of (acc_wickets, acc_overs, acc_runsConceded) \<Rightarrow>
      (let bs = filter (\<lambda>b. player_id (bowler b) = player_id p) (balls m);
           wickets = length (filter (\<lambda>b. isWicket b \<and> wicketType b \<noteq> Some RunOut) bs);
           runs' = foldl (\<lambda>sum b. sum + runs b) 0 bs
       in (acc_wickets + wickets, acc_overs + real (length bs) / 6, acc_runsConceded + runs')))"

definition bowlingStats :: "cricket_match list \<Rightarrow> player \<Rightarrow> nat \<times> real \<times> int" where
  "bowlingStats pms p = foldl (bowlingStats_step p) (0, 0, 0) pms"

definition fielded_by :: "player \<Rightarrow> ball \<Rightarrow> bool" where
  "fielded_by p b = (case wicketFielder b of None \<Rightarrow> False | Some f \<Rightarrow> player_id f = player_id p)"

definition fieldingStats_step ::
  "player \<Rightarrow> nat \<times> nat \<times> nat \<Rightarrow> cricket_match \<Rightarrow> nat \<times> nat \<times> nat" where
  "fieldingStats_step p acc m =
    (case acc of (acc_catches, acc_stumpings, acc_runOuts) \<Rightarrow>
      (let catches = length (filter (\<lambda>b. fielded_by p b \<and> wicketType b = Some Caught) (balls m));
           stumpings = length (filter (\<lambda>b. fielded_by p b \<and> wicketType b = Some Stumped) (balls m));
           runOuts = length (filter (\<lambda>b. fielded_by p b \<and> wicketType b = Some RunOut) (balls m))
       in (acc_catches + catches, acc_stumpings + stumpings, acc_runOuts + runOuts)))"

definition fieldingStats :: "cricket_match list \<Rightarrow> player \<Rightarrow> nat \<times> nat \<times> nat" where
  "fieldingStats pms p = foldl (fieldingStats_step p) (0, 0, 0) pms"

definition playerStatsOf :: "cricket_match list \<Rightarrow> player \<Rightarrow> player_stats" where
  "playerStatsOf ms p =
    (let pms = playerMatches ms p in
     case battingStats pms p of (b_runs, b_balls, b_fours, b_sixes, b_highestScore) \<Rightarrow>
     case bowlingStats pms p of (w_wickets, w_overs, w_runsConceded) \<Rightarrow>
     case fieldingStats pms p of (f_catches, f_stumpings, f_runOuts) \<Rightarrow>
     (let average = real_of_int b_runs / real (if b_balls = 0 then 1 else b_balls);
          strikeRate = (real_of_int b_runs / real (if b_balls = 0 then 1 else b_balls)) * 100;
          economy = real_of_int w_runsConceded / (if w_overs = 0 then 1 else w_overs)
      in \<lparr>ps_player = p, ps_matches = length pms,
          ps_runs = b_runs, ps_balls = b_balls, ps_fours = b_fours, ps_sixes = b_sixes,
          ps_highestScore = b_highestScore,
          ps_wickets = w_wickets, ps_overs = w_overs, ps_runsConceded = w_runsConceded,
          ps_catches = f_catches, ps_stumpings = f_stumpings, ps_runOuts = f_runOuts,
          ps_average = average, ps_strikeRate = strikeRate, ps_economy = economy,
          ps_bestBowling = (w_wickets, w_runsConceded),
          ps_fifties = b_runs div 50, ps_hundreds = b_runs div 100,
          ps_motmAwards = length (filter (\<lambda>m. case manOfTheMatch m of None \<Rightarrow> False
                                             | Some q \<Rightarrow> player_id q = player_id p) pms)\<rparr>))"

definition calculatePlayerStats :: "cricket_match list \<Rightarrow> player list \<Rightarrow> player_stats list" where
  "calculatePlayerStats ms ps = map (playerStatsOf ms) ps"

section \<open>Reference definitions\<close>

text \<open>
  The definitions of this section follow the wording of the specification, not the code;
  the components are compared with them below.
\<close>

text \<open>A delivery credited to the bowler: a wicket that is bowled, caught, lbw, stumped or hit-wicket.\<close>

definition spec_bowler_wicket :: "player \<Rightarrow> ball \<Rightarrow> bool" where
  "spec_bowler_wicket p b =
    (player_id (bowler b) = player_id p \<and> isWicket b \<and>
     (wicketType b = Some Bowled \<or> wicketType b = Some Caught \<or> wicketType b = Some Lbw \<or>
      wicketType b = Some Stumped \<or> wicketType b = Some HitWicket))"

definition spec_wicket_tally :: "player \<Rightarrow> ball list \<Rightarrow> nat" where
  "spec_wicket_tally p bs = length (filter (spec_bowler_wicket p) bs)"

text \<open>A plain delivery carries none of the four extra flags.\<close>

definition spec_plain :: "ball \<Rightarrow> bool" where
  "spec_plain b = (\<not> isWide b \<and> \<not> isNoBall b \<and> \<not> isBye b \<and> \<not> isLegBye b)"

definition spec_fours :: "player \<Rightarrow> ball list \<Rightarrow> nat" where
  "spec_fours p bs =
    length (filter (\<lambda>b. player_id (striker b) = player_id p \<and> spec_plain b \<and> runs b = 4) bs)"

definition spec_sixes :: "player \<Rightarrow> ball list \<Rightarrow> nat" where
  "spec_sixes p bs =
    length (filter (\<lambda>b. player_id (striker b) = player_id p \<and> spec_plain b \<and> runs b = 6) bs)"

text \<open>Times dismissed: the wicket deliveries on which the player was the striker.\<close>

definition spec_timesOut :: "player \<Rightarrow> cricket_match list \<Rightarrow> nat" where
  "spec_timesOut p ms =
    length (filter (\<lambda>b. isWicket b \<and> player_id (striker b) = player_id p) (concat (map balls ms)))"

definition spec_batting_average :: "int \<Rightarrow> nat \<Rightarrow> real" where
  "spec_batting_average runsScored timesOut = real_of_int runsScored / real timesOut"

text \<open>
  The current partnership: runs and legal deliveries strictly after the most recent wicket
  delivery, or of the whole innings when no wicket has fallen.
\<close>

definition sinceLastWicket :: "ball list \<Rightarrow> ball list" where
  "sinceLastWicket xs = rev (takeWhile (\<lambda>b. \<not> isWicket b) (rev xs))"

definition spec_partnership :: "ball list \<Rightarrow> partnership" where
  "spec_partnership xs =
    \<lparr>pship_runs = sum_list (map runs (sinceLastWicket xs)),
     pship_balls = length (filter (\<lambda>b. \<not> isWide b \<and> \<not> isNoBall b) (sinceLastWicket xs))\<rparr>"

section \<open>Sample data\<close>

abbreviation alice :: player where
  "alice \<equiv> \<lparr>player_id = ''p1'', name = ''Alice''\<rparr>"

abbreviation bob :: player where
  "bob \<equiv> \<lparr>player_id = ''p2'', name = ''Bob''\<rparr>"

abbreviation carol :: player where
  "carol \<equiv> \<lparr>player_id = ''p3'', name = ''Carol''\<rparr>"

text \<open>A plain first-innings delivery bowled by Bob to Alice on which \<open>r\<close> runs are run.\<close>

abbreviation delivery :: "int \<Rightarrow> ball" where
  "delivery r \<equiv> \<lparr>striker = alice, bowler = bob, runs = r, isWide = False, isNoBall = False,
     isBye = False, isLegBye = False, isWicket = False, wicketType = None,
     wicketFielder = None, innings = Some 1\<rparr>"

text \<open>A first-innings match with Alice and Carol at the crease, Bob bowling.\<close>

abbreviation match_of :: "ball list \<Rightarrow> cricket_match" where
  "match_of bs \<equiv> \<lparr>team1 = \<lparr>team_name = ''A'', players = [alice, carol]\<rparr>,
     team2 = \<lparr>team_name = ''B'', players = [bob]\<rparr>, balls = bs,
     currentStriker = Some alice, currentNonStriker = Some carol, currentBowler = Some bob,
     isSecondInnings = False, manOfTheMatch = None\<rparr>"

section \<open>Folds in closed form\<close>

lemma foldl_add_runs: "foldl (\<lambda>sum b. sum + runs b) a xs = a + sum_list (map runs xs)"
  by (induction xs arbitrary: a) simp_all

lemma foldl_plain_runs:
  "foldl (\<lambda>sum ball. if \<not> isWide ball \<and> \<not> isNoBall ball \<and> \<not> isBye ball \<and> \<not> isLegBye ball
                      then sum + runs ball else sum) a xs
   = a + sum_list (map runs (filter (\<lambda>b. \<not> isWide b \<and> \<not> isNoBall b \<and> \<not> isBye b \<and> \<not> isLegBye b) xs))"
  by (induction xs arbitrary: a) simp_all

lemma calculateBattingStats_fold:
  "dsm_runs (foldl (calculateBattingStats_step p) s xs) =
     dsm_runs s + sum_list (map runs (filter (\<lambda>b. \<not> isWide b \<and> \<not> isNoBall b \<and> \<not> isBye b \<and> \<not> isLegBye b) xs))"
  "dsm_balls (foldl (calculateBattingStats_step p) s xs) =
     dsm_balls s + length (filter (\<lambda>b. \<not> isWide b \<and> \<not> isNoBall b) xs)"
  "dsm_fours (foldl (calculateBattingStats_step p) s xs) = dsm_fours s + length (filter (\<lambda>b. runs b = 4) xs)"
  "dsm_sixes (foldl (calculateBattingStats_step p) s xs) = dsm_sixes s + length (filter (\<lambda>b. runs b = 6) xs)"
  by (induction xs arbitrary: s; simp add: calculateBattingStats_step_def Let_def)+

lemma CompactPlayerStats_runs:
  "bat_runs (CompactPlayerStats_calculateBatsmanStats m p) =
     sum_list (map runs (filter (\<lambda>b. \<not> isWide b \<and> \<not> isNoBall b \<and> \<not> isBye b \<and> \<not> isLegBye b)
       (filter (\<lambda>b. player_id (striker b) = player_id p) (balls m))))"
  by (simp add: CompactPlayerStats_calculateBatsmanStats_def Let_def foldl_plain_runs)

lemma CompactPlayerStats_ballsFaced:
  "bat_ballsFaced (CompactPlayerStats_calculateBatsmanStats m p) =
     length (filter (\<lambda>b. \<not> isWide b \<and> \<not> isNoBall b)
       (filter (\<lambda>b. player_id (striker b) = player_id p) (balls m)))"
  by (simp add: CompactPlayerStats_calculateBatsmanStats_def Let_def)

lemma DetailedScorecardModal_runs:
  "dsm_runs (DetailedScorecardModal_calculateBattingStats m p) =
     sum_list (map runs (filter (\<lambda>b. \<not> isWide b \<and> \<not> isNoBall b \<and> \<not> isBye b \<and> \<not> isLegBye b)
       (filter (\<lambda>b. player_id (striker b) = player_id p) (balls m))))"
  by (simp add: DetailedScorecardModal_calculateBattingStats_def Let_def calculateBattingStats_fold)

lemma DetailedScorecardModal_balls:
  "dsm_balls (DetailedScorecardModal_calculateBattingStats m p) =
     length (filter (\<lambda>b. \<not> isWide b \<and> \<not> isNoBall b)
       (filter (\<lambda>b. player_id (striker b) = player_id p) (balls m)))"
  by (simp add: DetailedScorecardModal_calculateBattingStats_def Let_def calculateBattingStats_fold)

lemma battingStats_fold:
  "fst (foldl (battingStats_step p) acc pms) =
     fst acc + (\<Sum>m\<leftarrow>pms. sum_list (map runs (filter (\<lambda>b. player_id (striker b) = player_id p) (balls m))))"
  "fst (snd (foldl (battingStats_step p) acc pms)) =
     fst (snd acc) + (\<Sum>m\<leftarrow>pms. length (filter (\<lambda>b. player_id (striker b) = player_id p) (balls m)))"
  by (induction pms arbitrary: acc;
      simp add: battingStats_step_def Let_def foldl_add_runs split: prod.splits)+

lemma bowlingStats_fold:
  "foldl (bowlingStats_step p) (w, ov, rc) pms =
   (w + (\<Sum>m\<leftarrow>pms. length (filter (\<lambda>b. player_id (bowler b) = player_id p \<and> isWicket b \<and> wicketType b \<noteq> Some RunOut) (balls m))),
    ov + (\<Sum>m\<leftarrow>pms. real (length (filter (\<lambda>b. player_id (bowler b) = player_id p) (balls m))) / 6),
    rc + (\<Sum>m\<leftarrow>pms. sum_list (map runs (filter (\<lambda>b. player_id (bowler b) = player_id p) (balls m)))))"
  by (induction pms arbitrary: w ov rc)
     (simp_all add: bowlingStats_step_def Let_def foldl_add_runs conj_commute algebra_simps)

lemma filter_throwing_ballsFaced:
  "filter_throwing ballsFaced_callback xs =
     (if list_all isWide xs then Inr [] else Inl ReferenceError)"
  by (induction xs) (simp_all add: ballsFaced_callback_def)

section \<open>The bowler's wicket tally\<close>

text \<open>
  C1, as stated: the tally counts exactly the deliveries of the bowler that are wickets of
  kind bowled, caught, lbw, stumped or hit-wicket. It fails on a retired dismissal: the
  filter of the components excludes the kind run-out only, so a wicket delivery of kind
  retired bowled by Bob is counted for Bob, while the reference tally is 0.
\<close>

theorem retired_dismissal_counted_counterexample:
  "bowl_wickets (CompactPlayerStats_calculateBowlerStats (match_of [(delivery 0)\<lparr>isWicket := True, wicketType := Some Retired\<rparr>]) bob)
   \<noteq> spec_wicket_tally bob [(delivery 0)\<lparr>isWicket := True, wicketType := Some Retired\<rparr>]"
  by (simp add: CompactPlayerStats_calculateBowlerStats_def spec_wicket_tally_def spec_bowler_wicket_def)

text \<open>
  C1, amended: in CompactPlayerStats, LiveStatsBar and GroupDashboard the wicket tally of a
  bowler is the number of deliveries bowled by that bowler that are flagged as a wicket and
  whose dismissal kind is not run-out (GroupDashboard: summed over the matches the player
  is listed in). A run-out never increments it; every other flagged wicket does, whatever
  its kind.
\<close>

theorem bowler_wickets_count_all_but_run_out:
  "bowl_wickets (CompactPlayerStats_calculateBowlerStats m p) =
     length (filter (\<lambda>b. player_id (bowler b) = player_id p \<and> isWicket b \<and> wicketType b \<noteq> Some RunOut) (balls m))
   \<and> lsw_wickets (LiveStatsBar_calculateBowlerStats p bs) =
     length (filter (\<lambda>b. player_id (bowler b) = player_id p \<and> isWicket b \<and> wicketType b \<noteq> Some RunOut) bs)
   \<and> ps_wickets (playerStatsOf ms p) =
     (\<Sum>m\<leftarrow>playerMatches ms p.
        length (filter (\<lambda>b. player_id (bowler b) = player_id p \<and> isWicket b \<and> wicketType b \<noteq> Some RunOut) (balls m)))"
proof (intro conjI)
  show "bowl_wickets (CompactPlayerStats_calculateBowlerStats m p) =
     length (filter (\<lambda>b. player_id (bowler b) = player_id p \<and> isWicket b \<and> wicketType b \<noteq> Some RunOut) (balls m))"
    by (simp add: CompactPlayerStats_calculateBowlerStats_def Let_def conj_commute)
  show "lsw_wickets (LiveStatsBar_calculateBowlerStats p bs) =
     length (filter (\<lambda>b. player_id (bowler b) = player_id p \<and> isWicket b \<and> wicketType b \<noteq> Some RunOut) bs)"
    by (simp add: LiveStatsBar_calculateBowlerStats_def Let_def conj_commute)
  show "ps_wickets (playerStatsOf ms p) =
     (\<Sum>m\<leftarrow>playerMatches ms p.
        length (filter (\<lambda>b. player_id (bowler b) = player_id p \<and> isWicket b \<and> wicketType b \<noteq> Some RunOut) (balls m)))"
    by (simp add: playerStatsOf_def Let_def bowlingStats_def bowlingStats_fold split: prod.splits)
qed

text \<open>
  The tally on three deliveries of Bob: a run-out (not counted), a retired dismissal and a
  bowled dismissal (both counted).
\<close>

theorem bowler_wickets_count_all_but_run_out_witness:
  "bowl_wickets (CompactPlayerStats_calculateBowlerStats
     (match_of [(delivery 1)\<lparr>isWicket := True, wicketType := Some RunOut\<rparr>, (delivery 0)\<lparr>isWicket := True, wicketType := Some Retired\<rparr>, (delivery 0)\<lparr>isWicket := True, wicketType := Some Bowled\<rparr>]) bob) = 2
   \<and> lsw_wickets (LiveStatsBar_calculateBowlerStats bob
     [(delivery 1)\<lparr>isWicket := True, wicketType := Some RunOut\<rparr>, (delivery 0)\<lparr>isWicket := True, wicketType := Some Retired\<rparr>, (delivery 0)\<lparr>isWicket := True, wicketType := Some Bowled\<rparr>]) = 2
   \<and> ps_wickets (playerStatsOf
     [match_of [(delivery 1)\<lparr>isWicket := True, wicketType := Some RunOut\<rparr>, (delivery 0)\<lparr>isWicket := True, wicketType := Some Retired\<rparr>, (delivery 0)\<lparr>isWicket := True, wicketType := Some Bowled\<rparr>]] bob) = 2"
  using bowler_wickets_count_all_but_run_out
    [where m = "match_of [(delivery 1)\<lparr>isWicket := True, wicketType := Some RunOut\<rparr>, (delivery 0)\<lparr>isWicket := True, wicketType := Some Retired\<rparr>, (delivery 0)\<lparr>isWicket := True, wicketType := Some Bowled\<rparr>]"
       and p = bob
       and bs = "[(delivery 1)\<lparr>isWicket := True, wicketType := Some RunOut\<rparr>, (delivery 0)\<lparr>isWicket := True, wicketType := Some Retired\<rparr>, (delivery 0)\<lparr>isWicket := True, wicketType := Some Bowled\<rparr>]"
       and ms = "[match_of [(delivery 1)\<lparr>isWicket := True, wicketType := Some RunOut\<rparr>, (delivery 0)\<lparr>isWicket := True, wicketType := Some Retired\<rparr>, (delivery 0)\<lparr>isWicket := True, wicketType := Some Bowled\<rparr>]]"]
  by (simp add: playerMatches_def)

section \<open>Fours and sixes\<close>

text \<open>
  C2, as stated: the fours count is the number of plain deliveries (no wide, no-ball, bye or
  leg-bye flag) with exactly 4 runs. It fails on a wide with 4 runs faced by Alice: the
  filter \<open>b.runs === 4\<close> reads no flag and counts it, the reference count is 0.
\<close>

theorem wide_four_counted_counterexample:
  "bat_fours (CompactPlayerStats_calculateBatsmanStats (match_of [(delivery 4)\<lparr>isWide := True\<rparr>]) alice)
   \<noteq> spec_fours alice [(delivery 4)\<lparr>isWide := True\<rparr>]"
  by (simp add: CompactPlayerStats_calculateBatsmanStats_def spec_fours_def spec_plain_def)

text \<open>
  C2, amended: for every list of deliveries, the fours count (respectively sixes count) of
  a batsman equals the number of deliveries faced by that batsman on which exactly 4
  (respectively 6) runs were run, whatever extra flags the delivery carries. This holds in
  CompactPlayerStats and DetailedScorecardModal, and in LiveStatsBar whenever its
  computation returns a record.
\<close>

theorem fours_sixes_count_any_delivery:
  "bat_fours (CompactPlayerStats_calculateBatsmanStats m p) =
     length (filter (\<lambda>b. player_id (striker b) = player_id p \<and> runs b = 4) (balls m))
   \<and> bat_sixes (CompactPlayerStats_calculateBatsmanStats m p) =
     length (filter (\<lambda>b. player_id (striker b) = player_id p \<and> runs b = 6) (balls m))
   \<and> dsm_fours (DetailedScorecardModal_calculateBattingStats m p) =
     length (filter (\<lambda>b. player_id (striker b) = player_id p \<and> runs b = 4) (balls m))
   \<and> dsm_sixes (DetailedScorecardModal_calculateBattingStats m p) =
     length (filter (\<lambda>b. player_id (striker b) = player_id p \<and> runs b = 6) (balls m))
   \<and> (LiveStatsBar_calculateBatsmanStats p bs = Inr st \<longrightarrow>
        lsb_fours st = length (filter (\<lambda>b. player_id (striker b) = player_id p \<and> runs b = 4) bs)
      \<and> lsb_sixes st = length (filter (\<lambda>b. player_id (striker b) = player_id p \<and> runs b = 6) bs))"
proof (intro conjI impI)
  show "bat_fours (CompactPlayerStats_calculateBatsmanStats m p) =
     length (filter (\<lambda>b. player_id (striker b) = player_id p \<and> runs b = 4) (balls m))"
    by (simp add: CompactPlayerStats_calculateBatsmanStats_def Let_def conj_commute)
  show "bat_sixes (CompactPlayerStats_calculateBatsmanStats m p) =
     length (filter (\<lambda>b. player_id (striker b) = player_id p \<and> runs b = 6) (balls m))"
    by (simp add: CompactPlayerStats_calculateBatsmanStats_def Let_def conj_commute)
  show "dsm_fours (DetailedScorecardModal_calculateBattingStats m p) =
     length (filter (\<lambda>b. player_id (striker b) = player_id p \<and> runs b = 4) (balls m))"
    by (simp add: DetailedScorecardModal_calculateBattingStats_def Let_def
          calculateBattingStats_fold conj_commute)
  show "dsm_sixes (DetailedScorecardModal_calculateBattingStats m p) =
     length (filter (\<lambda>b. player_id (striker b) = player_id p \<and> runs b = 6) (balls m))"
    by (simp add: DetailedScorecardModal_calculateBattingStats_def Let_def
          calculateBattingStats_fold conj_commute)
next
  assume r: "LiveStatsBar_calculateBatsmanStats p bs = Inr st"
  then show "lsb_fours st = length (filter (\<lambda>b. player_id (striker b) = player_id p \<and> runs b = 4) bs)"
    by (auto simp: LiveStatsBar_calculateBatsmanStats_def Let_def conj_commute split: sum.splits)
  from r show "lsb_sixes st = length (filter (\<lambda>b. player_id (striker b) = player_id p \<and> runs b = 6) bs)"
    by (auto simp: LiveStatsBar_calculateBatsmanStats_def Let_def conj_commute split: sum.splits)
qed

text \<open>
  LiveStatsBar returns a record on two wides of 4 and 6 runs, counting one four and one
  six; CompactPlayerStats counts two fours on a wide of 4 runs followed by a plain four.
\<close>

theorem fours_sixes_count_any_delivery_witness:
  "LiveStatsBar_calculateBatsmanStats alice [(delivery 4)\<lparr>isWide := True\<rparr>, (delivery 6)\<lparr>isWide := True\<rparr>]
     = Inr \<lparr>lsb_runs = 0, lsb_ballsFaced = 0, lsb_fours = 1, lsb_sixes = 1, lsb_strikeRate = 0,
            lsb_dotBalls = 0\<rparr>
   \<and> bat_fours (CompactPlayerStats_calculateBatsmanStats (match_of [(delivery 4)\<lparr>isWide := True\<rparr>, delivery 4]) alice) = 2"
proof -
  have r: "LiveStatsBar_calculateBatsmanStats alice [(delivery 4)\<lparr>isWide := True\<rparr>, (delivery 6)\<lparr>isWide := True\<rparr>]
     = Inr \<lparr>lsb_runs = 0, lsb_ballsFaced = 0, lsb_fours = 1, lsb_sixes = 1, lsb_strikeRate = 0,
            lsb_dotBalls = 0\<rparr>"
    by (simp add: LiveStatsBar_calculateBatsmanStats_def ballsFaced_callback_def)
  show ?thesis
    using r fours_sixes_count_any_delivery
      [where m = "match_of [(delivery 4)\<lparr>isWide := True\<rparr>, delivery 4]" and p = alice
         and bs = "[(delivery 4)\<lparr>isWide := True\<rparr>, (delivery 6)\<lparr>isWide := True\<rparr>]"
         and st = "\<lparr>lsb_runs = 0, lsb_ballsFaced = 0, lsb_fours = 1, lsb_sixes = 1,
                     lsb_strikeRate = 0, lsb_dotBalls = 0\<rparr>"]
    by simp
qed

section \<open>Runs and balls faced on extras\<close>

text \<open>
  C3, as stated: the runs run on a no-ball that is neither bye nor leg-bye are credited to
  the striker. It fails on a no-ball with 2 runs faced by Alice: her total after the
  delivery is her total before it, not 2 more.
\<close>

theorem no_ball_runs_credited_counterexample:
  "bat_runs (CompactPlayerStats_calculateBatsmanStats (match_of [(delivery 2)\<lparr>isNoBall := True\<rparr>]) alice)
   \<noteq> bat_runs (CompactPlayerStats_calculateBatsmanStats (match_of []) alice)
       + runs ((delivery 2)\<lparr>isNoBall := True\<rparr>)"
  by (simp add: CompactPlayerStats_calculateBatsmanStats_def)

text \<open>
  C3, amended: for every delivery flagged no-ball, whether or not it is also flagged bye or
  leg-bye, the striker's personal runs total computed by CompactPlayerStats and by
  DetailedScorecardModal is unchanged by that delivery: the total over a ledger holding the
  delivery at any position equals the total over the ledger without it.
\<close>

theorem no_ball_runs_not_credited:
  assumes "isNoBall b"
  shows "bat_runs (CompactPlayerStats_calculateBatsmanStats (m\<lparr>balls := bs @ b # cs\<rparr>) p) =
         bat_runs (CompactPlayerStats_calculateBatsmanStats (m\<lparr>balls := bs @ cs\<rparr>) p)
       \<and> dsm_runs (DetailedScorecardModal_calculateBattingStats (m\<lparr>balls := bs @ b # cs\<rparr>) p) =
         dsm_runs (DetailedScorecardModal_calculateBattingStats (m\<lparr>balls := bs @ cs\<rparr>) p)"
  using assms by (simp add: CompactPlayerStats_runs DetailedScorecardModal_runs)

text \<open>A single, a no-ball with 2 runs and a four: Alice's total is 5 in both components.\<close>

theorem no_ball_runs_not_credited_witness:
  "isNoBall ((delivery 2)\<lparr>isNoBall := True\<rparr>)
   \<and> bat_runs (CompactPlayerStats_calculateBatsmanStats
        (match_of [delivery 1, (delivery 2)\<lparr>isNoBall := True\<rparr>, delivery 4]) alice) = 5
   \<and> dsm_runs (DetailedScorecardModal_calculateBattingStats
        (match_of [delivery 1, (delivery 2)\<lparr>isNoBall := True\<rparr>, delivery 4]) alice) = 5"
  using no_ball_runs_not_credited
    [where b = "(delivery 2)\<lparr>isNoBall := True\<rparr>" and m = "match_of []" and bs = "[delivery 1]"
       and cs = "[delivery 4]" and p = alice]
  by (simp add: CompactPlayerStats_runs DetailedScorecardModal_runs)

text \<open>
  C4, as stated: a wide leaves the striker's runs unchanged, and a bye or leg-bye leaves the
  striker's balls-faced count unchanged. The second half fails on a bye faced by Alice: the
  balls-faced filter excludes wides and no-balls only, so the bye is a ball faced.
\<close>

theorem bye_increments_balls_faced_counterexample:
  "bat_ballsFaced (CompactPlayerStats_calculateBatsmanStats (match_of [(delivery 1)\<lparr>isBye := True\<rparr>]) alice)
   \<noteq> bat_ballsFaced (CompactPlayerStats_calculateBatsmanStats (match_of []) alice)"
  by (simp add: CompactPlayerStats_calculateBatsmanStats_def)

text \<open>
  C4, amended: for every delivery flagged wide, bye or leg-bye, the striker's personal runs
  total is unchanged by that delivery; and every delivery changes the balls-faced count of
  a player by one when the player is its striker and it is neither wide nor no-ball, and
  by nothing otherwise (so a bye or leg-bye that is not a no-ball is a ball faced). Both
  hold in CompactPlayerStats and in DetailedScorecardModal, at any position of the ledger.
\<close>

theorem extras_runs_and_balls_faced:
  "(isWide b \<or> isBye b \<or> isLegBye b \<longrightarrow>
      bat_runs (CompactPlayerStats_calculateBatsmanStats (m\<lparr>balls := bs @ b # cs\<rparr>) p) =
      bat_runs (CompactPlayerStats_calculateBatsmanStats (m\<lparr>balls := bs @ cs\<rparr>) p)
    \<and> dsm_runs (DetailedScorecardModal_calculateBattingStats (m\<lparr>balls := bs @ b # cs\<rparr>) p) =
      dsm_runs (DetailedScorecardModal_calculateBattingStats (m\<lparr>balls := bs @ cs\<rparr>) p))
   \<and> bat_ballsFaced (CompactPlayerStats_calculateBatsmanStats (m\<lparr>balls := bs @ b # cs\<rparr>) p) =
      bat_ballsFaced (CompactPlayerStats_calculateBatsmanStats (m\<lparr>balls := bs @ cs\<rparr>) p)
        + (if player_id (striker b) = player_id p \<and> \<not> isWide b \<and> \<not> isNoBall b then 1 else 0)
   \<and> dsm_balls (DetailedScorecardModal_calculateBattingStats (m\<lparr>balls := bs @ b # cs\<rparr>) p) =
      dsm_balls (DetailedScorecardModal_calculateBattingStats (m\<lparr>balls := bs @ cs\<rparr>) p)
        + (if player_id (striker b) = player_id p \<and> \<not> isWide b \<and> \<not> isNoBall b then 1 else 0)"
  by (simp add: CompactPlayerStats_runs DetailedScorecardModal_runs
        CompactPlayerStats_ballsFaced DetailedScorecardModal_balls)

text \<open>A two and a bye with 1 run: Alice has 2 runs off 2 balls faced.\<close>

theorem extras_runs_and_balls_faced_witness:
  "isBye ((delivery 1)\<lparr>isBye := True\<rparr>)
   \<and> bat_runs (CompactPlayerStats_calculateBatsmanStats
        (match_of [delivery 2, (delivery 1)\<lparr>isBye := True\<rparr>]) alice) = 2
   \<and> bat_ballsFaced (CompactPlayerStats_calculateBatsmanStats
        (match_of [delivery 2, (delivery 1)\<lparr>isBye := True\<rparr>]) alice) = 2"
  using extras_runs_and_balls_faced
    [where b = "(delivery 1)\<lparr>isBye := True\<rparr>" and m = "match_of []" and bs = "[delivery 2]"
       and cs = "[]" and p = alice]
  by (simp add: CompactPlayerStats_runs CompactPlayerStats_ballsFaced)

section \<open>Derived rates of the group dashboard\<close>

text \<open>
  C5, as stated: the batting average equals runs scored divided by times dismissed. It
  fails on a match in which Alice hits a four and is bowled next ball: she has 4 runs and
  one dismissal, the reference average is 4, and the dashboard's average is 4 / 2 = 2, the
  runs divided by the deliveries she faced.
\<close>

theorem average_not_per_dismissal_counterexample:
  "ps_average (playerStatsOf [match_of [delivery 4, (delivery 0)\<lparr>isWicket := True, wicketType := Some Bowled\<rparr>]] alice)
   \<noteq> spec_batting_average
        (ps_runs (playerStatsOf [match_of [delivery 4, (delivery 0)\<lparr>isWicket := True, wicketType := Some Bowled\<rparr>]] alice))
        (spec_timesOut alice [match_of [delivery 4, (delivery 0)\<lparr>isWicket := True, wicketType := Some Bowled\<rparr>]])"
  by (simp add: playerStatsOf_def playerMatches_def battingStats_def battingStats_step_def
        bowlingStats_def bowlingStats_step_def fieldingStats_def fieldingStats_step_def fielded_by_def
        spec_batting_average_def spec_timesOut_def)

text \<open>
  C5, amended: on every read of the aggregated statistics of a player the rates are
  recomputed from the accumulated totals, as exact quotients before rounding to two
  decimals: the batting average is the runs divided by the number of deliveries faced, the
  strike rate is that quotient times 100, and the economy is the runs conceded divided by
  the overs bowled, each divisor replaced by 1 when it is 0. The totals are sums over the
  matches the player is listed in: all runs run on the deliveries the player faced, the
  number of those deliveries, all runs run on the deliveries the player bowled, and the
  number of those deliveries divided by 6.
\<close>

theorem derived_rates_from_totals:
  "ps_average (playerStatsOf ms p) =
     real_of_int (ps_runs (playerStatsOf ms p))
       / real (if ps_balls (playerStatsOf ms p) = 0 then 1 else ps_balls (playerStatsOf ms p))
   \<and> ps_strikeRate (playerStatsOf ms p) =
     real_of_int (ps_runs (playerStatsOf ms p))
       / real (if ps_balls (playerStatsOf ms p) = 0 then 1 else ps_balls (playerStatsOf ms p)) * 100
   \<and> ps_economy (playerStatsOf ms p) =
     real_of_int (ps_runsConceded (playerStatsOf ms p))
       / (if ps_overs (playerStatsOf ms p) = 0 then 1 else ps_overs (playerStatsOf ms p))
   \<and> ps_runs (playerStatsOf ms p) =
     (\<Sum>m\<leftarrow>playerMatches ms p. sum_list (map runs (filter (\<lambda>b. player_id (striker b) = player_id p) (balls m))))
   \<and> ps_balls (playerStatsOf ms p) =
     (\<Sum>m\<leftarrow>playerMatches ms p. length (filter (\<lambda>b. player_id (striker b) = player_id p) (balls m)))
   \<and> ps_runsConceded (playerStatsOf ms p) =
     (\<Sum>m\<leftarrow>playerMatches ms p. sum_list (map runs (filter (\<lambda>b. player_id (bowler b) = player_id p) (balls m))))
   \<and> ps_overs (playerStatsOf ms p) =
     (\<Sum>m\<leftarrow>playerMatches ms p. real (length (filter (\<lambda>b. player_id (bowler b) = player_id p) (balls m))) / 6)"
proof -
  obtain r n f s h where b: "battingStats (playerMatches ms p) p = (r, n, f, s, h)"
    by (metis prod_cases5)
  obtain w ov rc where w: "bowlingStats (playerMatches ms p) p = (w, ov, rc)"
    by (metis prod_cases3)
  obtain c st ro where fl: "fieldingStats (playerMatches ms p) p = (c, st, ro)"
    by (metis prod_cases3)
  have r: "r = (\<Sum>m\<leftarrow>playerMatches ms p. sum_list (map runs (filter (\<lambda>b. player_id (striker b) = player_id p) (balls m))))"
    using battingStats_fold(1) [of p "(0, 0, 0, 0, 0)" "playerMatches ms p"] b
    by (simp add: battingStats_def)
  have n: "n = (\<Sum>m\<leftarrow>playerMatches ms p. length (filter (\<lambda>b. player_id (striker b) = player_id p) (balls m)))"
    using battingStats_fold(2) [of p "(0, 0, 0, 0, 0)" "playerMatches ms p"] b
    by (simp add: battingStats_def)
  have ov: "ov = (\<Sum>m\<leftarrow>playerMatches ms p. real (length (filter (\<lambda>b. player_id (bowler b) = player_id p) (balls m))) / 6)"
   and rc: "rc = (\<Sum>m\<leftarrow>playerMatches ms p. sum_list (map runs (filter (\<lambda>b. player_id (bowler b) = player_id p) (balls m))))"
    using bowlingStats_fold [of p 0 0 0 "playerMatches ms p"] w
    by (simp_all add: bowlingStats_def)
  show ?thesis
    unfolding playerStatsOf_def Let_def b w fl
    by (simp add: r [symmetric] n [symmetric] ov [symmetric] rc [symmetric])
qed

text \<open>
  The match of the counterexample: Alice has average 2 and strike rate 200 (4 runs off 2
  deliveries), Bob has economy 12 (4 runs off a third of an over).
\<close>

theorem derived_rates_from_totals_witness:
  "ps_average (playerStatsOf [match_of [delivery 4, (delivery 0)\<lparr>isWicket := True, wicketType := Some Bowled\<rparr>]] alice) = 2
   \<and> ps_strikeRate (playerStatsOf [match_of [delivery 4, (delivery 0)\<lparr>isWicket := True, wicketType := Some Bowled\<rparr>]] alice) = 200
   \<and> ps_economy (playerStatsOf [match_of [delivery 4, (delivery 0)\<lparr>isWicket := True, wicketType := Some Bowled\<rparr>]] bob) = 12"
proof -
  let ?ms = "[match_of [delivery 4, (delivery 0)\<lparr>isWicket := True, wicketType := Some Bowled\<rparr>]]"
  note a = derived_rates_from_totals [where ms = ?ms and p = alice]
  note b = derived_rates_from_totals [where ms = ?ms and p = bob]
  have ra: "ps_runs (playerStatsOf ?ms alice) = 4" and na: "ps_balls (playerStatsOf ?ms alice) = 2"
    using a by (simp_all add: playerMatches_def)
  have rb: "ps_runsConceded (playerStatsOf ?ms bob) = 4" and ob: "ps_overs (playerStatsOf ?ms bob) = 1 / 3"
    using b by (simp_all add: playerMatches_def)
  have "ps_average (playerStatsOf ?ms alice) = 2" "ps_strikeRate (playerStatsOf ?ms alice) = 200"
    using a unfolding ra na by simp_all
  moreover have "ps_economy (playerStatsOf ?ms bob) = 12"
    using b unfolding rb ob by simp
  ultimately show ?thesis by simp
qed

text \<open>
  The economy of the scorecard modal is not part of the amended statement: it divides by
  the overs.balls notation. Three singles off three legal deliveries of Bob are half an
  over for 3 runs, 6 an over; the modal divides 3 by \<open>0.3\<close> and shows 10.
\<close>

lemma DetailedScorecardModal_economy_by_notation:
  "dsw_overs (DetailedScorecardModal_calculateBowlingStats
      (match_of [delivery 1, delivery 1, delivery 1]) bob) = 3 / 10
   \<and> dsw_economy (DetailedScorecardModal_calculateBowlingStats
      (match_of [delivery 1, delivery 1, delivery 1]) bob) = 10"
  by (simp add: DetailedScorecardModal_calculateBowlingStats_def calculateBowlingStats_step_def)

section \<open>Overs and remaining balls\<close>

text \<open>
  C6: for every count \<open>k\<close> of legal deliveries, the two numbers printed by \<open>formatOvers\<close>
  satisfy the division identity, \<open>k = overs * 6 + remainder\<close> with the remainder between 0
  and 5; the same holds of the \<open>overs\<close> and \<open>remainingBalls\<close> that both
  \<open>calculateBowlerStats\<close> derive from \<open>ballsBowled\<close>, which is the number of deliveries of
  the bowler that are neither wide nor no-ball.
\<close>

theorem overs_division_identity:
  "fst (formatOvers (int k)) * 6 + snd (formatOvers (int k)) = int k
   \<and> 0 \<le> snd (formatOvers (int k)) \<and> snd (formatOvers (int k)) \<le> 5
   \<and> bowl_overs (CompactPlayerStats_calculateBowlerStats m p) * 6
       + bowl_remainingBalls (CompactPlayerStats_calculateBowlerStats m p)
     = bowl_ballsBowled (CompactPlayerStats_calculateBowlerStats m p)
   \<and> bowl_remainingBalls (CompactPlayerStats_calculateBowlerStats m p) \<le> 5
   \<and> bowl_ballsBowled (CompactPlayerStats_calculateBowlerStats m p)
     = length (filter (\<lambda>b. player_id (bowler b) = player_id p \<and> \<not> isWide b \<and> \<not> isNoBall b) (balls m))
   \<and> lsw_overs (LiveStatsBar_calculateBowlerStats p bs) * 6
       + lsw_remainingBalls (LiveStatsBar_calculateBowlerStats p bs)
     = lsw_ballsBowled (LiveStatsBar_calculateBowlerStats p bs)
   \<and> lsw_remainingBalls (LiveStatsBar_calculateBowlerStats p bs) \<le> 5
   \<and> lsw_ballsBowled (LiveStatsBar_calculateBowlerStats p bs)
     = length (filter (\<lambda>b. player_id (bowler b) = player_id p \<and> \<not> isWide b \<and> \<not> isNoBall b) bs)"
proof -
  have s: "sgn (int k) * (int k mod 6) = int k mod 6"
    by (cases "k = 0") simp_all
  have a: "fst (formatOvers (int k)) * 6 + snd (formatOvers (int k)) = int k"
    by (simp add: formatOvers_def js_rem_def Let_def s)
  have "int k mod 6 \<le> 5"
    by presburger
  then have b: "0 \<le> snd (formatOvers (int k)) \<and> snd (formatOvers (int k)) \<le> 5"
    by (simp add: formatOvers_def js_rem_def Let_def s)
  have c: "bowl_overs (CompactPlayerStats_calculateBowlerStats m p) * 6
       + bowl_remainingBalls (CompactPlayerStats_calculateBowlerStats m p)
     = bowl_ballsBowled (CompactPlayerStats_calculateBowlerStats m p)
   \<and> bowl_remainingBalls (CompactPlayerStats_calculateBowlerStats m p) \<le> 5
   \<and> bowl_ballsBowled (CompactPlayerStats_calculateBowlerStats m p)
     = length (filter (\<lambda>b. player_id (bowler b) = player_id p \<and> \<not> isWide b \<and> \<not> isNoBall b) (balls m))"
    by (simp add: CompactPlayerStats_calculateBowlerStats_def Let_def conj_commute conj_left_commute)
  have d: "lsw_overs (LiveStatsBar_calculateBowlerStats p bs) * 6
       + lsw_remainingBalls (LiveStatsBar_calculateBowlerStats p bs)
     = lsw_ballsBowled (LiveStatsBar_calculateBowlerStats p bs)
   \<and> lsw_remainingBalls (LiveStatsBar_calculateBowlerStats p bs) \<le> 5
   \<and> lsw_ballsBowled (LiveStatsBar_calculateBowlerStats p bs)
     = length (filter (\<lambda>b. player_id (bowler b) = player_id p \<and> \<not> isWide b \<and> \<not> isNoBall b) bs)"
    by (simp add: LiveStatsBar_calculateBowlerStats_def Let_def conj_commute conj_left_commute)
  from a b c d show ?thesis by blast
qed

text \<open>Twenty legal deliveries are printed as 3 overs and 2 balls.\<close>

theorem overs_division_identity_witness:
  "formatOvers 20 = (3, 2) \<and> 3 * 6 + 2 = (20 :: int)"
  using overs_division_identity [where k = 20 and m = "match_of []" and p = bob and bs = "[]"]
  by (simp add: formatOvers_def js_rem_def)

section \<open>Maiden overs\<close>

text \<open>
  C8: for every bowler and every list of deliveries, the maiden-overs figure that
  CompactPlayerStats produces for display is 0.
\<close>

theorem maidens_hardcoded_zero:
  "bowl_maidens (CompactPlayerStats_calculateBowlerStats m p) = 0"
  by (simp add: CompactPlayerStats_calculateBowlerStats_def Let_def)

section \<open>The batsman statistics of LiveStatsBar\<close>

text \<open>
  The computation throws exactly when the player faced a delivery that is not a wide; it
  returns a record only when every delivery the player faced is a wide.
\<close>

lemma LiveStatsBar_calculateBatsmanStats_throws:
  "LiveStatsBar_calculateBatsmanStats p bs = Inl ReferenceError
   \<longleftrightarrow> (\<exists>b \<in> set bs. player_id (striker b) = player_id p \<and> \<not> isWide b)"
  by (auto simp: LiveStatsBar_calculateBatsmanStats_def Let_def filter_throwing_ballsFaced list_all_iff)

text \<open>
  C9 claims that \<open>calculateBatsmanStats\<close> of LiveStatsBar returns a record on every input.
  On one plain single faced by Alice it throws a \<open>ReferenceError\<close> instead.
\<close>

theorem LiveStatsBar_batsman_stats_ReferenceError:
  "LiveStatsBar_calculateBatsmanStats alice [delivery 1] = Inl ReferenceError"
  by (simp add: LiveStatsBar_calculateBatsmanStats_def ballsFaced_callback_def)

section \<open>LiveScoreboard against CompactPlayerStats\<close>

lemma LiveScoreboard_runs:
  "bat_runs (LiveScoreboard_calculateBatsmanStats m p) =
     sum_list (map runs (filter (\<lambda>b. player_id (striker b) = player_id p) (balls m)))"
  by (simp add: LiveScoreboard_calculateBatsmanStats_def Let_def foldl_add_runs)

lemma sum_list_split_filter:
  "sum_list (map (f :: 'a \<Rightarrow> int) xs) =
     sum_list (map f (filter P xs)) + sum_list (map f (filter (\<lambda>x. \<not> P x) xs))"
  by (induction xs) simp_all

text \<open>
  The total of LiveScoreboard exceeds the total of CompactPlayerStats by the runs run on
  the flagged deliveries the player faced.
\<close>

lemma LiveScoreboard_runs_excess:
  "bat_runs (LiveScoreboard_calculateBatsmanStats m p) =
     bat_runs (CompactPlayerStats_calculateBatsmanStats m p)
     + sum_list (map runs (filter (\<lambda>b. isWide b \<or> isNoBall b \<or> isBye b \<or> isLegBye b)
         (filter (\<lambda>b. player_id (striker b) = player_id p) (balls m))))"
  using sum_list_split_filter [of runs "filter (\<lambda>b. player_id (striker b) = player_id p) (balls m)"
          "\<lambda>b. \<not> isWide b \<and> \<not> isNoBall b \<and> \<not> isBye b \<and> \<not> isLegBye b"]
  by (simp add: LiveScoreboard_runs CompactPlayerStats_runs)

text \<open>
  C10 claims that the two personal runs totals agree on all inputs. On one wide with 1 run
  faced by Alice, LiveScoreboard gives her 1 run and CompactPlayerStats gives her 0.
\<close>

theorem LiveScoreboard_runs_differ_from_CompactPlayerStats:
  "bat_runs (LiveScoreboard_calculateBatsmanStats (match_of [(delivery 1)\<lparr>isWide := True\<rparr>]) alice) = 1
   \<and> bat_runs (CompactPlayerStats_calculateBatsmanStats (match_of [(delivery 1)\<lparr>isWide := True\<rparr>]) alice) = 0"
  by (simp add: LiveScoreboard_calculateBatsmanStats_def CompactPlayerStats_calculateBatsmanStats_def)

section \<open>The current partnership\<close>

lemma wicketIndices_snoc:
  "wicketIndices (xs @ [x]) = wicketIndices xs @ (if isWicket x then [int (length xs)] else [])"
  by (simp add: wicketIndices_def enumerate_append_eq)

lemma sinceLastWicket_snoc:
  "sinceLastWicket (xs @ [x]) = (if isWicket x then [] else sinceLastWicket xs @ [x])"
  by (simp add: sinceLastWicket_def)

lemma sinceLastWicket_no_wicket: "b \<in> set (sinceLastWicket xs) \<Longrightarrow> \<not> isWicket b"
  by (auto simp: sinceLastWicket_def dest: set_takeWhileD)

text \<open>
  What \<open>pop\<close> returns: nothing when no wicket has fallen, else the index of the last
  wicket delivery, after which the reference partnership starts.
\<close>

lemma pop_result_wicketIndices:
  "case pop_result (wicketIndices xs) of
     None \<Rightarrow> sinceLastWicket xs = xs
   | Some i \<Rightarrow> 0 \<le> i \<and> nat i < length xs \<and> isWicket (xs ! nat i)
              \<and> sinceLastWicket xs = drop (Suc (nat i)) xs"
proof (induction xs rule: rev_induct)
  case Nil
  show ?case by (simp add: wicketIndices_def pop_result_def sinceLastWicket_def)
next
  case (snoc x xs)
  show ?case
  proof (cases "isWicket x")
    case True
    then show ?thesis
      by (simp add: wicketIndices_snoc sinceLastWicket_snoc pop_result_def)
  next
    case False
    then have same: "pop_result (wicketIndices (xs @ [x])) = pop_result (wicketIndices xs)"
      by (simp add: wicketIndices_snoc)
    show ?thesis
    proof (cases "pop_result (wicketIndices xs)")
      case None
      with snoc False same show ?thesis
        by (simp add: sinceLastWicket_snoc)
    next
      case (Some i)
      with snoc have i: "0 \<le> i" "nat i < length xs" "isWicket (xs ! nat i)"
        "sinceLastWicket xs = drop (Suc (nat i)) xs"
        by simp_all
      from i False same Some show ?thesis
        by (simp add: sinceLastWicket_snoc nth_append)
    qed
  qed
qed

lemma partnershipBalls_after_last_wicket:
  assumes "\<not> (\<exists>b bs. xs = b # bs \<and> isWicket b \<and> (\<forall>c\<in>set bs. \<not> isWicket c))"
  shows "drop (nat (lastWicketIndex xs + 1)) xs = sinceLastWicket xs"
proof (cases "pop_result (wicketIndices xs)")
  case None
  with pop_result_wicketIndices [of xs] show ?thesis
    by (simp add: lastWicketIndex_def)
next
  case (Some i)
  with pop_result_wicketIndices [of xs] have i: "0 \<le> i" "nat i < length xs" "isWicket (xs ! nat i)"
    "sinceLastWicket xs = drop (Suc (nat i)) xs"
    by simp_all
  have "i \<noteq> 0"
  proof
    assume z: "i = 0"
    with i obtain b bs where xs: "xs = b # bs"
      by (cases xs) auto
    with i z have "isWicket b" "sinceLastWicket xs = bs"
      by simp_all
    with sinceLastWicket_no_wicket [of _ xs] have "\<forall>c\<in>set bs. \<not> isWicket c"
      by auto
    with assms xs \<open>isWicket b\<close> show False
      by blast
  qed
  with i Some show ?thesis
    by (simp add: lastWicketIndex_def nat_add_distrib)
qed

lemma partnershipBalls_first_ball_wicket:
  assumes "isWicket b" "\<forall>c\<in>set bs. \<not> isWicket c"
  shows "drop (nat (lastWicketIndex (b # bs) + 1)) (b # bs) = b # bs"
    and "sinceLastWicket (b # bs) = bs"
proof -
  have "takeWhile (\<lambda>b. \<not> isWicket b) (rev bs @ [b]) = rev bs @ takeWhile (\<lambda>b. \<not> isWicket b) [b]"
    using assms(2) by (intro takeWhile_append2) simp
  then show s: "sinceLastWicket (b # bs) = bs"
    using assms(1) by (simp add: sinceLastWicket_def)
  have "pop_result (wicketIndices (b # bs)) = Some 0"
  proof (cases "pop_result (wicketIndices (b # bs))")
    case None
    with pop_result_wicketIndices [of "b # bs"] s have "bs = b # bs" by simp
    then show ?thesis by simp
  next
    case (Some i)
    with pop_result_wicketIndices [of "b # bs"] have i: "0 \<le> i" "nat i < length (b # bs)"
      "isWicket ((b # bs) ! nat i)"
      by simp_all
    have "nat i = 0"
    proof (rule ccontr)
      assume "nat i \<noteq> 0"
      then obtain k where k: "nat i = Suc k" by (cases "nat i") auto
      with i have "k < length bs" "isWicket (bs ! k)" by simp_all
      with assms(2) show False by (metis nth_mem)
    qed
    with i Some show ?thesis by simp
  qed
  then show "drop (nat (lastWicketIndex (b # bs) + 1)) (b # bs) = b # bs"
    by (simp add: lastWicketIndex_def)
qed

text \<open>
  With both batsmen set, the displayed partnership is the reference partnership unless the
  only wicket of the innings so far fell on its very first delivery.
\<close>

lemma calculatePartnership_after_last_wicket:
  assumes "currentStriker m \<noteq> None" "currentNonStriker m \<noteq> None"
    and "\<not> (\<exists>b bs. currentInningsBalls m = b # bs \<and> isWicket b \<and> (\<forall>c\<in>set bs. \<not> isWicket c))"
  shows "calculatePartnership m = spec_partnership (currentInningsBalls m)"
  using assms(1,2) partnershipBalls_after_last_wicket [OF assms(3)]
  by (auto simp: calculatePartnership_def spec_partnership_def Let_def foldl_add_runs)

text \<open>In that remaining case the wicket delivery itself is counted into the partnership.\<close>

lemma calculatePartnership_first_ball_wicket:
  assumes "currentStriker m \<noteq> None" "currentNonStriker m \<noteq> None"
    and "currentInningsBalls m = b # bs" "isWicket b" "\<forall>c\<in>set bs. \<not> isWicket c"
  shows "calculatePartnership m =
           \<lparr>pship_runs = runs b + sum_list (map runs bs),
            pship_balls = length (filter (\<lambda>ball. \<not> isWide ball \<and> \<not> isNoBall ball) (b # bs))\<rparr>"
    and "spec_partnership (currentInningsBalls m) =
           \<lparr>pship_runs = sum_list (map runs bs),
            pship_balls = length (filter (\<lambda>ball. \<not> isWide ball \<and> \<not> isNoBall ball) bs)\<rparr>"
  using assms(1,2,3) partnershipBalls_first_ball_wicket [OF assms(4,5)]
  by (auto simp: calculatePartnership_def spec_partnership_def Let_def foldl_add_runs)

text \<open>
  C7 claims that the displayed partnership is counted strictly after the most recent
  wicket, also when that wicket fell on the very first delivery of the innings. On an
  innings that opens with Alice bowled and goes on with a four, the display shows 4 runs
  off 2 balls: the index 0 of the wicket is falsy, \<open>pop() || -1\<close> gives \<open>-1\<close>, and the
  wicket delivery stays in the slice. Counted after the wicket it is 4 runs off 1 ball.
\<close>

theorem partnership_includes_first_ball_wicket:
  "calculatePartnership (match_of [(delivery 0)\<lparr>isWicket := True, wicketType := Some Bowled\<rparr>, delivery 4])
     = \<lparr>pship_runs = 4, pship_balls = 2\<rparr>
   \<and> spec_partnership (currentInningsBalls (match_of [(delivery 0)\<lparr>isWicket := True, wicketType := Some Bowled\<rparr>, delivery 4]))
     = \<lparr>pship_runs = 4, pship_balls = 1\<rparr>"
  by (simp add: calculatePartnership_def currentInningsBalls_def lastWicketIndex_def
        wicketIndices_def pop_result_def spec_partnership_def sinceLastWicket_def)

end
